theory Spec2Isabelle
  imports Main
begin

section \<open>The manifest reader: data model\<close>

text \<open>
  The module \<^verbatim>\<open>manifest_reader.py\<close> turns the dictionary decoded from a block's
  \<^verbatim>\<open>manifest.yaml\<close> into a \<^verbatim>\<open>Manifest\<close> object holding one \<^verbatim>\<open>FileList\<close> per kind and an
  optional \<^verbatim>\<open>FolderStructure\<close>.

  A decoded YAML value is null, a boolean, an integer, a string, a list or a mapping.
  A mapping is kept as the list of its items in insertion order, which is the order
  Python's \<^verbatim>\<open>dict\<close> iterates in; its keys are strings and occur once each. Strings are
  lists of characters.
\<close>

datatype yaml =
    YNull
  | YBool bool
  | YInt int
  | YStr string
  | YList "yaml list"
  | YDict "(string \<times> yaml) list"

text \<open>
  The exceptions the module can raise: a failed dictionary lookup carries the key that
  was looked up, as Python's \<^verbatim>\<open>KeyError\<close> does.
\<close>

datatype py_error =
    KeyError yaml
  | TypeError
  | AttributeError

subsection \<open>Python's operators on decoded values\<close>

text \<open>\<^verbatim>\<open>needle in hay\<close> for two strings is the substring test.\<close>

primrec str_contains :: "string \<Rightarrow> string \<Rightarrow> bool" where
  "str_contains [] needle = (needle = [])"
| "str_contains (c # cs) needle =
     (take (length needle) (c # cs) = needle \<or> str_contains cs needle)"

text \<open>
  \<^verbatim>\<open>key in container\<close> with a string on the left: key membership for a mapping, element
  membership for a list, the substring test for a string; the other values are not
  iterable.
\<close>

fun py_in :: "string \<Rightarrow> yaml \<Rightarrow> py_error + bool" where
  "py_in key (YDict d) = Inr (key \<in> set (map fst d))"
| "py_in key (YList xs) = Inr (YStr key \<in> set xs)"
| "py_in key (YStr s) = Inr (str_contains s key)"
| "py_in key YNull = Inl TypeError"
| "py_in key (YBool b) = Inl TypeError"
| "py_in key (YInt i) = Inl TypeError"

text \<open>
  \<^verbatim>\<open>container[key]\<close> with a string key: a mapping returns the value or raises
  \<^verbatim>\<open>KeyError\<close>; lists and strings take integer indices only; the other values cannot be
  subscripted.
\<close>

fun py_getitem :: "yaml \<Rightarrow> string \<Rightarrow> py_error + yaml" where
  "py_getitem (YDict d) key =
     (case map_of d key of None \<Rightarrow> Inl (KeyError (YStr key)) | Some v \<Rightarrow> Inr v)"
| "py_getitem (YList xs) key = Inl TypeError"
| "py_getitem (YStr s) key = Inl TypeError"
| "py_getitem YNull key = Inl TypeError"
| "py_getitem (YBool b) key = Inl TypeError"
| "py_getitem (YInt i) key = Inl TypeError"

text \<open>\<^verbatim>\<open>value.keys()\<close>: only a mapping has the method.\<close>

fun py_keys :: "yaml \<Rightarrow> py_error + string list" where
  "py_keys (YDict d) = Inr (map fst d)"
| "py_keys (YList xs) = Inl AttributeError"
| "py_keys (YStr s) = Inl AttributeError"
| "py_keys YNull = Inl AttributeError"
| "py_keys (YBool b) = Inl AttributeError"
| "py_keys (YInt i) = Inl AttributeError"

text \<open>
  \<^verbatim>\<open>for x in value\<close>: a list yields its elements, a string its characters (each a string
  of length one), a mapping its keys; the other values are not iterable.
\<close>

fun py_iter :: "yaml \<Rightarrow> py_error + yaml list" where
  "py_iter (YList xs) = Inr xs"
| "py_iter (YStr s) = Inr (map (\<lambda>c. YStr [c]) s)"
| "py_iter (YDict d) = Inr (map (\<lambda>kv. YStr (fst kv)) d)"
| "py_iter YNull = Inl TypeError"
| "py_iter (YBool b) = Inl TypeError"
| "py_iter (YInt i) = Inl TypeError"

text \<open>Lists and mappings cannot be hashed, so they cannot be looked up in a \<^verbatim>\<open>dict\<close>.\<close>

fun hashable :: "yaml \<Rightarrow> bool" where
  "hashable (YList xs) = False"
| "hashable (YDict d) = False"
| "hashable v = True"

subsection \<open>Paths\<close>

text \<open>
  \<^verbatim>\<open>pathlib.Path\<close> in its POSIX flavour: a path is its root (empty, one slash or two
  slashes) and its components. Parsing a string splits it at the slashes and drops the
  empty components and the components \<^verbatim>\<open>.\<close>; joining a path with a string appends the
  string's components, unless the string is absolute, which replaces the path.
\<close>

record Path =
  p_root :: string
  p_parts :: "string list"

fun split_sep :: "string \<Rightarrow> string \<Rightarrow> string list" where
  "split_sep cur [] = [cur]"
| "split_sep cur (c # cs) =
     (if c = CHR ''/'' then cur # split_sep [] cs else split_sep (cur @ [c]) cs)"

definition splitroot :: "string \<Rightarrow> string \<times> string" where
  "splitroot part =
     (case part of
        [] \<Rightarrow> ([], part)
      | c # cs \<Rightarrow>
          if c = CHR ''/'' then
            (let stripped = dropWhile (\<lambda>x. x = CHR ''/'') part in
             if length part - length stripped = 2 then (''//'', stripped)
             else (''/'', stripped))
          else ([], part))"

definition parse_path :: "string \<Rightarrow> Path" where
  "parse_path s =
     (case splitroot s of
        (r, rel) \<Rightarrow>
          \<lparr>p_root = r, p_parts = filter (\<lambda>x. x \<noteq> [] \<and> x \<noteq> ''.'') (split_sep [] rel)\<rparr>)"

definition truediv :: "Path \<Rightarrow> string \<Rightarrow> Path" where
  "truediv p s =
     (let q = parse_path s in
      if p_root q \<noteq> [] then q
      else \<lparr>p_root = p_root p, p_parts = p_parts p @ p_parts q\<rparr>)"

text \<open>\<^verbatim>\<open>dir / file\<close> for a decoded value: only a string can be joined to a path.\<close>

fun path_div :: "Path \<Rightarrow> yaml \<Rightarrow> py_error + Path" where
  "path_div p (YStr s) = Inr (truediv p s)"
| "path_div p YNull = Inl TypeError"
| "path_div p (YBool b) = Inl TypeError"
| "path_div p (YInt i) = Inl TypeError"
| "path_div p (YList xs) = Inl TypeError"
| "path_div p (YDict d) = Inl TypeError"

section \<open>FileList\<close>

record FileList =
  kind :: string
  files :: yaml
  standard :: yaml

definition kinds :: "(string \<times> string) list" where
  "kinds = [(''dsn'', ''_dsn''), (''tb'', ''_tb''), (''self'', ''_lib''), (''none'', [])]"

definition get_lib_name :: "FileList \<Rightarrow> string \<Rightarrow> py_error + string" where
  "get_lib_name self blk_name =
     (case map_of kinds (kind self) of
        None \<Rightarrow> Inl (KeyError (YStr (kind self)))
      | Some suffix \<Rightarrow> Inr (blk_name @ suffix))"

section \<open>FolderStructure\<close>

record FolderStructure =
  fs_name :: yaml
  fs_structure :: "(string \<times> string) list"

definition folder_structures :: "(string \<times> (string \<times> string) list) list" where
  "folder_structures =
     [(''src_dsn'', [(''dsn'', ''src/dsn''), (''tb'', ''src/tb''), (''self'', [])]),
      (''hdl_sim'', [(''dsn'', ''..''), (''tb'', ''.''), (''self'', [])])]"

text \<open>
  Membership and lookup of a decoded value in a class-level table whose keys are strings:
  an unhashable key raises \<^verbatim>\<open>TypeError\<close>, a key that is not a string of the table is
  absent.
\<close>

definition table_contains :: "(string \<times> 'v) list \<Rightarrow> yaml \<Rightarrow> py_error + bool" where
  "table_contains t k =
     (if \<not> hashable k then Inl TypeError
      else Inr (case k of YStr s \<Rightarrow> s \<in> set (map fst t) | _ \<Rightarrow> False))"

definition table_getitem :: "(string \<times> 'v) list \<Rightarrow> yaml \<Rightarrow> py_error + 'v" where
  "table_getitem t k =
     (if \<not> hashable k then Inl TypeError
      else case k of
             YStr s \<Rightarrow> (case map_of t s of None \<Rightarrow> Inl (KeyError k) | Some v \<Rightarrow> Inr v)
           | _ \<Rightarrow> Inl (KeyError k))"

text \<open>
  \<^verbatim>\<open>FolderStructure.__init__\<close>: the name is the argument when the table knows it and
  \<^verbatim>\<open>None\<close> otherwise; the structure is then read from the table by subscript.
\<close>

definition FolderStructure_init :: "yaml \<Rightarrow> py_error + FolderStructure" where
  "FolderStructure_init folder_structure =
     (case table_contains folder_structures folder_structure of
        Inl e \<Rightarrow> Inl e
      | Inr known \<Rightarrow>
          (let nm = (if known then folder_structure else YNull) in
           case table_getitem folder_structures folder_structure of
             Inl e \<Rightarrow> Inl e
           | Inr st \<Rightarrow> Inr \<lparr>fs_name = nm, fs_structure = st\<rparr>))"

section \<open>Manifest\<close>

record Manifest =
  root_dir :: Path
  name :: yaml
  folder_structure :: "FolderStructure option"
  file_lists :: "FileList list"
  blocks :: yaml
  constraints :: yaml
  ips :: yaml
  supported_simulators :: yaml
  max_threads :: yaml

definition DEFAULT_SIMULATORS :: yaml where
  "DEFAULT_SIMULATORS = YList [YStr ''msim'', YStr ''msim_free'']"

definition DEFAULT_MAX_THREADS :: yaml where
  "DEFAULT_MAX_THREADS = YInt 5"

text \<open>\<^verbatim>\<open>d[key] if key in d else default\<close> on the manifest dictionary.\<close>

definition get_or :: "(string \<times> yaml) list \<Rightarrow> string \<Rightarrow> yaml \<Rightarrow> yaml" where
  "get_or d key dflt = (case map_of d key of None \<Rightarrow> dflt | Some v \<Rightarrow> v)"

text \<open>
  The body of the loop of \<^verbatim>\<open>Manifest.__init__\<close> that chooses the standard of one kind
  (lines 100 to 106): the default, replaced by \<^verbatim>\<open>VHDL 2008\<close> for a testbench, else by
  the entry of \<^verbatim>\<open>standards\<close> when \<^verbatim>\<open>standards\<close> is not \<^verbatim>\<open>None\<close> and has the kind.
\<close>

definition choose_standard :: "yaml \<Rightarrow> yaml \<Rightarrow> string \<Rightarrow> py_error + yaml" where
  "choose_standard default_standard standards knd =
     (if knd = ''tb'' then Inr (YStr ''VHDL 2008'')
      else if standards = YNull then Inr default_standard
      else case py_in knd standards of
             Inl e \<Rightarrow> Inl e
           | Inr True \<Rightarrow> py_getitem standards knd
           | Inr False \<Rightarrow> Inr default_standard)"

text \<open>
  The loop over \<^verbatim>\<open>manifest_dict["files"].keys()\<close>, appending one file list per kind.
\<close>

fun file_lists_loop ::
  "yaml \<Rightarrow> yaml \<Rightarrow> yaml \<Rightarrow> string list \<Rightarrow> FileList list \<Rightarrow> py_error + FileList list" where
  "file_lists_loop fdict default_standard standards [] acc = Inr acc"
| "file_lists_loop fdict default_standard standards (knd # ks) acc =
     (case py_getitem fdict knd of
        Inl e \<Rightarrow> Inl e
      | Inr fs \<Rightarrow>
          (case choose_standard default_standard standards knd of
             Inl e \<Rightarrow> Inl e
           | Inr st \<Rightarrow>
               file_lists_loop fdict default_standard standards ks
                 (acc @ [\<lparr>kind = knd, files = fs, standard = st\<rparr>])))"

text \<open>
  \<^verbatim>\<open>Manifest.__init__\<close>. The argument \<^verbatim>\<open>manifest_dict\<close> is the mapping decoded from the
  document; \<^verbatim>\<open>root_dir\<close> is already a path.
\<close>

definition Manifest_init :: "(string \<times> yaml) list \<Rightarrow> Path \<Rightarrow> py_error + Manifest" where
  "Manifest_init manifest_dict rootd =
     (case map_of manifest_dict ''name'' of
        None \<Rightarrow> Inl (KeyError (YStr ''name''))
      | Some nm \<Rightarrow>
          (case (case map_of manifest_dict ''folder_structure'' of
                   None \<Rightarrow> Inr None
                 | Some v \<Rightarrow>
                     (case FolderStructure_init v of
                        Inl e \<Rightarrow> Inl e
                      | Inr s \<Rightarrow> Inr (Some s))) of
             Inl e \<Rightarrow> Inl e
           | Inr fstruct \<Rightarrow>
               (let default_standard = get_or manifest_dict ''standard'' (YStr ''VHDL'');
                    standards = get_or manifest_dict ''standards'' YNull
                in case map_of manifest_dict ''files'' of
                     None \<Rightarrow> Inl (KeyError (YStr ''files''))
                   | Some fdict \<Rightarrow>
                       (case py_keys fdict of
                          Inl e \<Rightarrow> Inl e
                        | Inr ks \<Rightarrow>
                            (case file_lists_loop fdict default_standard standards ks [] of
                               Inl e \<Rightarrow> Inl e
                             | Inr fls \<Rightarrow>
                                 Inr \<lparr>root_dir = rootd,
                                      name = nm,
                                      folder_structure = fstruct,
                                      file_lists = fls,
                                      blocks = get_or manifest_dict ''blocks'' YNull,
                                      constraints = get_or manifest_dict ''constraints'' YNull,
                                      ips = get_or manifest_dict ''ips'' YNull,
                                      supported_simulators =
                                        get_or manifest_dict ''supported_simulators''
                                          DEFAULT_SIMULATORS,
                                      max_threads =
                                        get_or manifest_dict ''max_threads''
                                          DEFAULT_MAX_THREADS\<rparr>)))))"

definition get_source_dir :: "Manifest \<Rightarrow> string \<Rightarrow> py_error + Path" where
  "get_source_dir self knd =
     (case folder_structure self of
        None \<Rightarrow> Inr (root_dir self)
      | Some fstruct \<Rightarrow>
          (case map_of (fs_structure fstruct) knd of
             None \<Rightarrow> Inl (KeyError (YStr knd))
           | Some sub \<Rightarrow> Inr (truediv (root_dir self) sub)))"

definition preference_order :: "string list" where
  "preference_order = [''ghdl'', ''qsim'', ''msim'', ''msim_free'', ''xsim'']"

text \<open>
  The loop of \<^verbatim>\<open>get_preferred_simulator\<close>: the first simulator of the order that is
  \<^verbatim>\<open>in\<close> the supported ones; falling off the end of the loop returns \<^verbatim>\<open>None\<close>.
\<close>

fun preferred_loop :: "string list \<Rightarrow> yaml \<Rightarrow> py_error + string option" where
  "preferred_loop [] supported = Inr None"
| "preferred_loop (simulator # rest) supported =
     (case py_in simulator supported of
        Inl e \<Rightarrow> Inl e
      | Inr True \<Rightarrow> Inr (Some simulator)
      | Inr False \<Rightarrow> preferred_loop rest supported)"

definition get_preferred_simulator :: "Manifest \<Rightarrow> py_error + string option" where
  "get_preferred_simulator self = preferred_loop preference_order (supported_simulators self)"

definition get_max_threads :: "Manifest \<Rightarrow> yaml" where
  "get_max_threads self = max_threads self"

text \<open>The list comprehension \<^verbatim>\<open>[(dir / file) for file in files]\<close> over the items.\<close>

fun join_each :: "Path \<Rightarrow> yaml list \<Rightarrow> py_error + Path list" where
  "join_each dir [] = Inr []"
| "join_each dir (f # fs) =
     (case path_div dir f of
        Inl e \<Rightarrow> Inl e
      | Inr p \<Rightarrow> (case join_each dir fs of Inl e \<Rightarrow> Inl e | Inr ps \<Rightarrow> Inr (p # ps)))"

text \<open>
  The loop of \<^verbatim>\<open>get_all_files\<close>: for each file list, the source directory of its kind is
  resolved first, then its files are iterated and joined, and the paths extend \<^verbatim>\<open>ret\<close>.
\<close>

fun all_files_loop :: "Manifest \<Rightarrow> FileList list \<Rightarrow> Path list \<Rightarrow> py_error + Path list" where
  "all_files_loop self [] ret = Inr ret"
| "all_files_loop self (file_list # rest) ret =
     (case get_source_dir self (kind file_list) of
        Inl e \<Rightarrow> Inl e
      | Inr dir \<Rightarrow>
          (case py_iter (files file_list) of
             Inl e \<Rightarrow> Inl e
           | Inr items \<Rightarrow>
               (case join_each dir items of
                  Inl e \<Rightarrow> Inl e
                | Inr paths \<Rightarrow> all_files_loop self rest (ret @ paths))))"

definition get_all_files :: "Manifest \<Rightarrow> py_error + Path list" where
  "get_all_files self = all_files_loop self (file_lists self) []"

section \<open>The documented behaviour, as written\<close>

text \<open>
  The precedence of standards for a kind other than the testbench, in the words of the
  specification: the entry of the manifest's \<^verbatim>\<open>standards\<close> mapping for the kind when there
  is one, else the manifest's \<^verbatim>\<open>standard\<close>, else \<^verbatim>\<open>VHDL\<close>.
\<close>

definition declared_standard :: "(string \<times> yaml) list \<Rightarrow> string \<Rightarrow> yaml" where
  "declared_standard md knd =
     (case (case map_of md ''standards'' of Some (YDict sd) \<Rightarrow> map_of sd knd | _ \<Rightarrow> None) of
        Some v \<Rightarrow> v
      | None \<Rightarrow> (case map_of md ''standard'' of Some s \<Rightarrow> s | None \<Rightarrow> YStr ''VHDL''))"

text \<open>
  Two conditions on the optional keys of a manifest: its \<^verbatim>\<open>folder_structure\<close> is absent or
  one of the two conventions, and its \<^verbatim>\<open>standards\<close> is absent, null or a mapping.
\<close>

definition known_folder_structure :: "(string \<times> yaml) list \<Rightarrow> bool" where
  "known_folder_structure md =
     (case map_of md ''folder_structure'' of
        None \<Rightarrow> True
      | Some v \<Rightarrow> v = YStr ''src_dsn'' \<or> v = YStr ''hdl_sim'')"

definition standards_is_mapping :: "(string \<times> yaml) list \<Rightarrow> bool" where
  "standards_is_mapping md =
     (case map_of md ''standards'' of
        None \<Rightarrow> True
      | Some YNull \<Rightarrow> True
      | Some (YDict sd) \<Rightarrow> True
      | Some _ \<Rightarrow> False)"

section \<open>Facts about the constructor and its loops\<close>

lemma file_lists_loop_Inr:
  "file_lists_loop fd dflt stds ks acc = Inr fls \<Longrightarrow>
   \<exists>new. fls = acc @ new \<and> map kind new = ks \<and>
     (\<forall>fl\<in>set new. choose_standard dflt stds (kind fl) = Inr (standard fl) \<and>
                     py_getitem fd (kind fl) = Inr (files fl))"
proof (induction ks arbitrary: acc)
  case Nil
  then show ?case by simp
next
  case (Cons k ks)
  from Cons.prems obtain fs st where
    g: "py_getitem fd k = Inr fs" and c: "choose_standard dflt stds k = Inr st" and
    r: "file_lists_loop fd dflt stds ks (acc @ [\<lparr>kind = k, files = fs, standard = st\<rparr>]) = Inr fls"
    by (auto split: sum.splits)
  from Cons.IH [OF r] obtain new where
    n: "fls = (acc @ [\<lparr>kind = k, files = fs, standard = st\<rparr>]) @ new" "map kind new = ks"
       "\<forall>fl\<in>set new. choose_standard dflt stds (kind fl) = Inr (standard fl) \<and>
                     py_getitem fd (kind fl) = Inr (files fl)"
    by blast
  show ?case
    by (rule exI [of _ "\<lparr>kind = k, files = fs, standard = st\<rparr> # new"]) (use n g c in simp)
qed

lemma Manifest_init_Inr:
  assumes "Manifest_init md rootd = Inr m"
  shows "\<exists>nm fd ks.
           map_of md ''name'' = Some nm \<and> map_of md ''files'' = Some fd \<and> py_keys fd = Inr ks \<and>
           file_lists_loop fd (get_or md ''standard'' (YStr ''VHDL''))
             (get_or md ''standards'' YNull) ks [] = Inr (file_lists m) \<and>
           root_dir m = rootd \<and> name m = nm \<and>
           (case map_of md ''folder_structure'' of
              None \<Rightarrow> folder_structure m = None
            | Some v \<Rightarrow> \<exists>s. FolderStructure_init v = Inr s \<and> folder_structure m = Some s) \<and>
           supported_simulators m = get_or md ''supported_simulators'' DEFAULT_SIMULATORS"
  using assms unfolding Manifest_init_def Let_def
  by (auto split: option.splits sum.splits)

lemma py_keys_Inr: "py_keys fd = Inr ks \<Longrightarrow> \<exists>fs. fd = YDict fs \<and> ks = map fst fs"
  by (cases fd) auto

lemma Manifest_init_file_lists:
  assumes "Manifest_init md rootd = Inr m"
  shows "\<exists>fs. map_of md ''files'' = Some (YDict fs) \<and> map kind (file_lists m) = map fst fs \<and>
           (\<forall>fl\<in>set (file_lists m).
              choose_standard (get_or md ''standard'' (YStr ''VHDL''))
                (get_or md ''standards'' YNull) (kind fl) = Inr (standard fl))"
proof -
  from Manifest_init_Inr [OF assms] obtain fd ks where
    f: "map_of md ''files'' = Some fd" and k: "py_keys fd = Inr ks" and
    l: "file_lists_loop fd (get_or md ''standard'' (YStr ''VHDL''))
          (get_or md ''standards'' YNull) ks [] = Inr (file_lists m)"
    by blast
  from py_keys_Inr [OF k] obtain fs where fs: "fd = YDict fs" "ks = map fst fs" by blast
  from file_lists_loop_Inr [OF l] have
    "map kind (file_lists m) = ks" and
    "\<forall>fl\<in>set (file_lists m).
          choose_standard (get_or md ''standard'' (YStr ''VHDL''))
            (get_or md ''standards'' YNull) (kind fl) = Inr (standard fl)"
    by auto
  with f fs show ?thesis by simp
qed

lemma choose_standard_tb: "choose_standard dflt stds ''tb'' = Inr (YStr ''VHDL 2008'')"
  by (simp add: choose_standard_def)

lemma map_of_keys: "k \<in> fst ` set d \<Longrightarrow> \<exists>v. map_of d k = Some v"
  by (metis domD dom_map_of_conv_image_fst)

lemma choose_standard_other:
  assumes "choose_standard dflt stds k = Inr st" "k \<noteq> ''tb''"
  shows "st = (case (case stds of YDict sd \<Rightarrow> map_of sd k | _ \<Rightarrow> None) of
                 Some v \<Rightarrow> v
               | None \<Rightarrow> dflt)"
proof (cases stds)
  case (YDict sd)
  show ?thesis
  proof (cases "k \<in> fst ` set sd")
    case True
    then obtain v where "map_of sd k = Some v" using map_of_keys by fastforce
    with assms YDict True show ?thesis by (simp add: choose_standard_def)
  next
    case False
    then have "map_of sd k = None" by (simp add: map_of_eq_None_iff)
    with assms YDict False show ?thesis by (simp add: choose_standard_def)
  qed
qed (use assms in \<open>auto simp: choose_standard_def split: if_splits bool.splits\<close>)

lemma choose_standard_declared:
  assumes "choose_standard (get_or md ''standard'' (YStr ''VHDL''))
             (get_or md ''standards'' YNull) k = Inr st" "k \<noteq> ''tb''"
  shows "st = declared_standard md k"
  using choose_standard_other [OF assms]
  by (auto simp: declared_standard_def get_or_def split: option.splits yaml.splits)

lemma preferred_loop_list:
  "preferred_loop order (YList xs) = Inr (find (\<lambda>s. YStr s \<in> set xs) order)"
  by (induction order) auto

lemma truediv_src_dsn: "truediv r ''src/dsn'' = r\<lparr>p_parts := p_parts r @ [''src'', ''dsn'']\<rparr>"
  by (simp add: truediv_def parse_path_def splitroot_def)

lemma truediv_src_tb: "truediv r ''src/tb'' = r\<lparr>p_parts := p_parts r @ [''src'', ''tb'']\<rparr>"
  by (simp add: truediv_def parse_path_def splitroot_def)

lemma truediv_empty: "truediv r [] = r"
  by (simp add: truediv_def parse_path_def splitroot_def)

lemma FolderStructure_init_src_dsn:
  "FolderStructure_init (YStr ''src_dsn'') =
     Inr \<lparr>fs_name = YStr ''src_dsn'',
          fs_structure = [(''dsn'', ''src/dsn''), (''tb'', ''src/tb''), (''self'', [])]\<rparr>"
  by (simp add: FolderStructure_init_def table_contains_def table_getitem_def folder_structures_def)



lemma choose_standard_total:
  assumes "stds = YNull \<or> (\<exists>sd. stds = YDict sd)"
  shows "\<exists>st. choose_standard dflt stds k = Inr st"
proof (cases stds)
  case (YDict sd)
  show ?thesis
  proof (cases "k \<in> fst ` set sd")
    case True
    then obtain v where "map_of sd k = Some v" using map_of_keys by fastforce
    with YDict True show ?thesis by (simp add: choose_standard_def)
  next
    case False
    with YDict show ?thesis by (simp add: choose_standard_def)
  qed
qed (use assms in \<open>auto simp: choose_standard_def\<close>)

lemma choose_standard_Inl: "choose_standard dflt stds k = Inl e \<Longrightarrow> e = TypeError"
proof (cases stds)
  case (YDict sd)
  assume a: "choose_standard dflt stds k = Inl e"
  show ?thesis
  proof (cases "k \<in> fst ` set sd")
    case True
    then obtain v where "map_of sd k = Some v" using map_of_keys by fastforce
    with a YDict True show ?thesis by (simp add: choose_standard_def split: if_splits)
  next
    case False
    with a YDict show ?thesis by (simp add: choose_standard_def split: if_splits)
  qed
qed (auto simp: choose_standard_def split: if_splits bool.splits)

lemma file_lists_loop_total:
  assumes "set ks \<subseteq> fst ` set fs" "stds = YNull \<or> (\<exists>sd. stds = YDict sd)"
  shows "\<exists>fls. file_lists_loop (YDict fs) dflt stds ks acc = Inr fls"
  using assms(1)
proof (induction ks arbitrary: acc)
  case Nil
  then show ?case by simp
next
  case (Cons k ks)
  from Cons.prems obtain v where v: "map_of fs k = Some v" using map_of_keys by fastforce
  from choose_standard_total [OF assms(2)] obtain st where
    st: "choose_standard dflt stds k = Inr st" by blast
  from Cons.prems have "set ks \<subseteq> fst ` set fs" by simp
  from Cons.IH [OF this] show ?case by (simp add: v st)
qed

lemma file_lists_loop_Inl:
  assumes "file_lists_loop (YDict fs) dflt stds ks acc = Inl e" "set ks \<subseteq> fst ` set fs"
  shows "e = TypeError"
  using assms
proof (induction ks arbitrary: acc)
  case Nil
  then show ?case by simp
next
  case (Cons k ks)
  from Cons.prems obtain v where v: "map_of fs k = Some v" using map_of_keys by fastforce
  show ?case
  proof (cases "choose_standard dflt stds k")
    case (Inl e')
    with Cons.prems v have "e' = e" by simp
    with Inl choose_standard_Inl show ?thesis by blast
  next
    case (Inr st)
    with Cons.prems v have
      "file_lists_loop (YDict fs) dflt stds ks (acc @ [\<lparr>kind = k, files = v, standard = st\<rparr>]) = Inl e"
      by simp
    moreover from Cons.prems have "set ks \<subseteq> fst ` set fs" by simp
    ultimately show ?thesis by (rule Cons.IH)
  qed
qed

lemma known_folder_structure_Inr:
  assumes "known_folder_structure md"
  shows "\<exists>fstruct. (case map_of md ''folder_structure'' of
                       None \<Rightarrow> Inr None
                     | Some v \<Rightarrow>
                         (case FolderStructure_init v of
                            Inl e \<Rightarrow> Inl e
                          | Inr s \<Rightarrow> Inr (Some s))) = Inr fstruct"
  using assms
  by (auto simp: known_folder_structure_def FolderStructure_init_def table_contains_def
        table_getitem_def folder_structures_def split: option.splits)

lemma standards_is_mapping_cases:
  "standards_is_mapping md \<Longrightarrow>
   get_or md ''standards'' YNull = YNull \<or> (\<exists>sd. get_or md ''standards'' YNull = YDict sd)"
  by (auto simp: standards_is_mapping_def get_or_def split: option.splits yaml.splits)

lemma Manifest_init_total:
  assumes "map_of md ''name'' = Some nm" "map_of md ''files'' = Some (YDict fs)"
    "known_folder_structure md" "standards_is_mapping md"
  shows "\<exists>m. Manifest_init md rootd = Inr m"
proof -
  from known_folder_structure_Inr [OF assms(3)] obtain fstruct where
    f: "(case map_of md ''folder_structure'' of
           None \<Rightarrow> Inr None
         | Some v \<Rightarrow>
             (case FolderStructure_init v of
                Inl e \<Rightarrow> Inl e
              | Inr s \<Rightarrow> Inr (Some s))) = Inr fstruct"
    by blast
  have "set (map fst fs) \<subseteq> fst ` set fs" by simp
  from file_lists_loop_total [OF this standards_is_mapping_cases [OF assms(4)]]
  obtain fls where
    l: "file_lists_loop (YDict fs) (get_or md ''standard'' (YStr ''VHDL''))
          (get_or md ''standards'' YNull) (map fst fs) [] = Inr fls"
    by blast
  show ?thesis
    unfolding Manifest_init_def Let_def by (simp add: assms(1,2) f l)
qed

lemma FolderStructure_init_unknown:
  assumes "v \<noteq> YStr ''src_dsn''" "v \<noteq> YStr ''hdl_sim''"
  shows "FolderStructure_init v = Inl (if hashable v then KeyError v else TypeError)"
  using assms
  by (cases v)
     (auto simp: FolderStructure_init_def table_contains_def table_getitem_def
        folder_structures_def)

lemma Manifest_init_Inl:
  assumes "map_of md ''name'' = Some nm" "map_of md ''files'' = Some fv"
    "Manifest_init md rootd = Inl e"
  shows "(\<exists>v. map_of md ''folder_structure'' = Some v \<and> FolderStructure_init v = Inl e) \<or>
         e = AttributeError \<or> e = TypeError"
proof (cases "map_of md ''folder_structure''")
  case None
  show ?thesis
  proof (cases fv)
    case (YDict fs)
    have "set (map fst fs) \<subseteq> fst ` set fs" by simp
    with assms None YDict file_lists_loop_Inl show ?thesis
      unfolding Manifest_init_def Let_def by (fastforce split: sum.splits)
  qed (use assms None in \<open>auto simp: Manifest_init_def Let_def\<close>)
next
  case (Some v)
  show ?thesis
  proof (cases "FolderStructure_init v")
    case (Inl e')
    with assms Some show ?thesis by (simp add: Manifest_init_def)
  next
    case (Inr s)
    show ?thesis
    proof (cases fv)
      case (YDict fs)
      have "set (map fst fs) \<subseteq> fst ` set fs" by simp
      with assms Some Inr YDict file_lists_loop_Inl show ?thesis
        unfolding Manifest_init_def Let_def by (fastforce split: sum.splits)
    qed (use assms Some Inr in \<open>auto simp: Manifest_init_def Let_def\<close>)
  qed
qed

lemma FolderStructure_init_KeyError:
  "FolderStructure_init v = Inl (KeyError k) \<Longrightarrow> k = v"
  by (auto simp: FolderStructure_init_def table_contains_def table_getitem_def
        split: if_splits yaml.splits option.splits)

lemmas init_defs = Manifest_init_def get_or_def choose_standard_def FolderStructure_init_def
  table_contains_def table_getitem_def folder_structures_def DEFAULT_SIMULATORS_def
  DEFAULT_MAX_THREADS_def Let_def

section \<open>Library names\<close>

text \<open>
  Claim C3. For every block name, \<^verbatim>\<open>get_lib_name\<close> returns the block name followed by
  the suffix of the file list's kind: \<^verbatim>\<open>_dsn\<close> for dsn, \<^verbatim>\<open>_tb\<close> for tb, \<^verbatim>\<open>_lib\<close> for self
  and nothing for none; the four names of one block are pairwise distinct.
\<close>

theorem get_lib_name_suffix_distinct:
  "get_lib_name (fl\<lparr>kind := ''dsn''\<rparr>) b = Inr (b @ ''_dsn'') \<and>
   get_lib_name (fl\<lparr>kind := ''tb''\<rparr>) b = Inr (b @ ''_tb'') \<and>
   get_lib_name (fl\<lparr>kind := ''self''\<rparr>) b = Inr (b @ ''_lib'') \<and>
   get_lib_name (fl\<lparr>kind := ''none''\<rparr>) b = Inr b \<and>
   distinct [get_lib_name (fl\<lparr>kind := ''dsn''\<rparr>) b, get_lib_name (fl\<lparr>kind := ''tb''\<rparr>) b,
             get_lib_name (fl\<lparr>kind := ''self''\<rparr>) b, get_lib_name (fl\<lparr>kind := ''none''\<rparr>) b]"
  by (simp add: get_lib_name_def kinds_def)

section \<open>Standards\<close>

text \<open>
  Claim C1. Whenever a manifest is constructed, there is one file list per kind declared
  under \<^verbatim>\<open>files\<close>, in declaration order, and every file list of kind \<^verbatim>\<open>tb\<close> has the standard
  \<^verbatim>\<open>VHDL 2008\<close>, whatever the manifest's \<^verbatim>\<open>standard\<close> and \<^verbatim>\<open>standards\<close> say.
\<close>

theorem tb_standard_forced:
  assumes "Manifest_init md rootd = Inr m"
  shows "\<exists>fs. map_of md ''files'' = Some (YDict fs) \<and> map kind (file_lists m) = map fst fs \<and>
           (\<forall>fl\<in>set (file_lists m). kind fl = ''tb'' \<longrightarrow> standard fl = YStr ''VHDL 2008'')"
proof -
  from Manifest_init_file_lists [OF assms] obtain fs where
    f: "map_of md ''files'' = Some (YDict fs)" "map kind (file_lists m) = map fst fs" and
    b: "\<forall>fl\<in>set (file_lists m).
          choose_standard (get_or md ''standard'' (YStr ''VHDL''))
            (get_or md ''standards'' YNull) (kind fl) = Inr (standard fl)"
    by blast
  have "\<forall>fl\<in>set (file_lists m). kind fl = ''tb'' \<longrightarrow> standard fl = YStr ''VHDL 2008''"
    using b choose_standard_tb by (metis sum.inject(2))
  with f show ?thesis by simp
qed

text \<open>
  A manifest whose default is \<^verbatim>\<open>VHDL\<close> and whose \<^verbatim>\<open>standards\<close> give \<^verbatim>\<open>VHDL\<close> for \<^verbatim>\<open>tb\<close> still gets
  \<^verbatim>\<open>VHDL 2008\<close> for its testbench.
\<close>

theorem tb_standard_forced_witness:
  "\<exists>m. Manifest_init
          [(''name'', YStr ''blk''), (''standard'', YStr ''VHDL''),
           (''standards'', YDict [(''tb'', YStr ''VHDL'')]),
           (''files'', YDict [(''dsn'', YList [YStr ''a.vhd'']), (''tb'', YList [YStr ''t.vhd''])])]
          \<lparr>p_root = ''/'', p_parts = [''work'', ''blk'']\<rparr> = Inr m \<and>
        map kind (file_lists m) = [''dsn'', ''tb''] \<and>
        map standard (file_lists m) = [YStr ''VHDL'', YStr ''VHDL 2008'']"
proof -
  let ?md = "[(''name'', YStr ''blk''), (''standard'', YStr ''VHDL''),
           (''standards'', YDict [(''tb'', YStr ''VHDL'')]),
           (''files'', YDict [(''dsn'', YList [YStr ''a.vhd'']), (''tb'', YList [YStr ''t.vhd''])])]"
  let ?rt = "\<lparr>p_root = ''/'', p_parts = [''work'', ''blk'']\<rparr>"
  obtain m where e: "Manifest_init ?md ?rt = Inr m"
    and l: "file_lists m = [\<lparr>kind = ''dsn'', files = YList [YStr ''a.vhd''], standard = YStr ''VHDL''\<rparr>,
                            \<lparr>kind = ''tb'', files = YList [YStr ''t.vhd''], standard = YStr ''VHDL 2008''\<rparr>]"
    by (simp add: init_defs)
  from tb_standard_forced [OF e] have
    "\<forall>fl\<in>set (file_lists m). kind fl = ''tb'' \<longrightarrow> standard fl = YStr ''VHDL 2008''"
    by blast
  with e l show ?thesis by (intro exI [of _ m]) simp
qed

text \<open>
  Claim C2. For every file list of a constructed manifest whose kind is not \<^verbatim>\<open>tb\<close>, the
  standard is the entry of the \<^verbatim>\<open>standards\<close> mapping for the kind when there is one, else
  the manifest's \<^verbatim>\<open>standard\<close>, else \<^verbatim>\<open>VHDL\<close>.
\<close>

theorem standard_precedence:
  assumes "Manifest_init md rootd = Inr m" "fl \<in> set (file_lists m)" "kind fl \<noteq> ''tb''"
  shows "standard fl = declared_standard md (kind fl)"
proof -
  from Manifest_init_file_lists [OF assms(1)] assms(2) have
    "choose_standard (get_or md ''standard'' (YStr ''VHDL''))
       (get_or md ''standards'' YNull) (kind fl) = Inr (standard fl)"
    by blast
  then show ?thesis using assms(3) by (rule choose_standard_declared)
qed

text \<open>
  With default \<^verbatim>\<open>VHDL\<close> and \<^verbatim>\<open>standards: {dsn: "VHDL 2008"}\<close>, the kind \<^verbatim>\<open>dsn\<close> resolves to
  \<^verbatim>\<open>VHDL 2008\<close> and the kind \<^verbatim>\<open>self\<close> to the default.
\<close>

theorem standard_precedence_witness:
  "\<exists>m. Manifest_init
          [(''name'', YStr ''blk''), (''standard'', YStr ''VHDL''),
           (''standards'', YDict [(''dsn'', YStr ''VHDL 2008'')]),
           (''files'', YDict [(''dsn'', YList [YStr ''a.vhd'']), (''tb'', YList [YStr ''t.vhd'']),
                              (''self'', YList [])])]
          \<lparr>p_root = ''/'', p_parts = [''work'', ''blk'']\<rparr> = Inr m \<and>
        file_lists m =
          [\<lparr>kind = ''dsn'', files = YList [YStr ''a.vhd''], standard = YStr ''VHDL 2008''\<rparr>,
           \<lparr>kind = ''tb'', files = YList [YStr ''t.vhd''], standard = YStr ''VHDL 2008''\<rparr>,
           \<lparr>kind = ''self'', files = YList [], standard = YStr ''VHDL''\<rparr>]"
proof -
  let ?md = "[(''name'', YStr ''blk''), (''standard'', YStr ''VHDL''),
           (''standards'', YDict [(''dsn'', YStr ''VHDL 2008'')]),
           (''files'', YDict [(''dsn'', YList [YStr ''a.vhd'']), (''tb'', YList [YStr ''t.vhd'']),
                              (''self'', YList [])])]"
  let ?rt = "\<lparr>p_root = ''/'', p_parts = [''work'', ''blk'']\<rparr>"
  obtain m st0 st1 st2 where e: "Manifest_init ?md ?rt = Inr m"
    and l: "file_lists m =
          [\<lparr>kind = ''dsn'', files = YList [YStr ''a.vhd''], standard = st0\<rparr>,
           \<lparr>kind = ''tb'', files = YList [YStr ''t.vhd''], standard = st1\<rparr>,
           \<lparr>kind = ''self'', files = YList [], standard = st2\<rparr>]"
    and t: "st1 = YStr ''VHDL 2008''"
    by (simp add: init_defs)
  have "st0 = declared_standard ?md ''dsn''"
    using standard_precedence [OF e, of "\<lparr>kind = ''dsn'', files = YList [YStr ''a.vhd''], standard = st0\<rparr>"] l
    by simp
  then have s0: "st0 = YStr ''VHDL 2008''" by (simp add: declared_standard_def)
  have "st2 = declared_standard ?md ''self''"
    using standard_precedence [OF e, of "\<lparr>kind = ''self'', files = YList [], standard = st2\<rparr>"] l
    by simp
  then have s2: "st2 = YStr ''VHDL''" by (simp add: declared_standard_def)
  from e l t s0 s2 show ?thesis by (intro exI [of _ m]) simp
qed

section \<open>Source directories\<close>

text \<open>
  Claim C5. A manifest constructed without \<^verbatim>\<open>folder_structure\<close> resolves every kind to its
  root directory; one constructed with the convention \<^verbatim>\<open>src_dsn\<close> resolves \<^verbatim>\<open>dsn\<close> to
  \<^verbatim>\<open>root_dir/src/dsn\<close>, \<^verbatim>\<open>tb\<close> to \<^verbatim>\<open>root_dir/src/tb\<close> and \<^verbatim>\<open>self\<close> to the root directory.
\<close>

theorem source_dir_of_kind:
  assumes "Manifest_init md rootd = Inr m"
  shows "(map_of md ''folder_structure'' = None \<longrightarrow> (\<forall>knd. get_source_dir m knd = Inr rootd)) \<and>
         (map_of md ''folder_structure'' = Some (YStr ''src_dsn'') \<longrightarrow>
            get_source_dir m ''dsn'' = Inr (rootd\<lparr>p_parts := p_parts rootd @ [''src'', ''dsn'']\<rparr>) \<and>
            get_source_dir m ''tb'' = Inr (rootd\<lparr>p_parts := p_parts rootd @ [''src'', ''tb'']\<rparr>) \<and>
            get_source_dir m ''self'' = Inr rootd)"
proof -
  from Manifest_init_Inr [OF assms] have
    r: "root_dir m = rootd" and
    f: "case map_of md ''folder_structure'' of
          None \<Rightarrow> folder_structure m = None
        | Some v \<Rightarrow> \<exists>s. FolderStructure_init v = Inr s \<and> folder_structure m = Some s"
    by auto
  show ?thesis
  proof (intro conjI impI allI)
    fix knd
    assume "map_of md ''folder_structure'' = None"
    with f r show "get_source_dir m knd = Inr rootd"
      by (simp add: get_source_dir_def)
  next
    assume "map_of md ''folder_structure'' = Some (YStr ''src_dsn'')"
    with f have s: "folder_structure m =
        Some \<lparr>fs_name = YStr ''src_dsn'',
              fs_structure = [(''dsn'', ''src/dsn''), (''tb'', ''src/tb''), (''self'', [])]\<rparr>"
      by (simp add: FolderStructure_init_src_dsn)
    show "get_source_dir m ''dsn'' = Inr (rootd\<lparr>p_parts := p_parts rootd @ [''src'', ''dsn'']\<rparr>)"
      using s r by (simp add: get_source_dir_def truediv_src_dsn)
    show "get_source_dir m ''tb'' = Inr (rootd\<lparr>p_parts := p_parts rootd @ [''src'', ''tb'']\<rparr>)"
      using s r by (simp add: get_source_dir_def truediv_src_tb)
    show "get_source_dir m ''self'' = Inr rootd"
      using s r by (simp add: get_source_dir_def truediv_empty)
  qed
qed

theorem source_dir_of_kind_witness:
  "(\<exists>m. Manifest_init [(''name'', YStr ''blk''), (''files'', YDict [(''none'', YList [])])]
           \<lparr>p_root = ''/'', p_parts = [''work'', ''blk'']\<rparr> = Inr m \<and>
        get_source_dir m ''none'' = Inr \<lparr>p_root = ''/'', p_parts = [''work'', ''blk'']\<rparr>) \<and>
   (\<exists>m. Manifest_init [(''name'', YStr ''blk''), (''folder_structure'', YStr ''src_dsn''),
                        (''files'', YDict [(''dsn'', YList [])])]
           \<lparr>p_root = ''/'', p_parts = [''work'', ''blk'']\<rparr> = Inr m \<and>
        get_source_dir m ''dsn'' = Inr \<lparr>p_root = ''/'', p_parts = [''work'', ''blk'', ''src'', ''dsn'']\<rparr> \<and>
        get_source_dir m ''tb'' = Inr \<lparr>p_root = ''/'', p_parts = [''work'', ''blk'', ''src'', ''tb'']\<rparr> \<and>
        get_source_dir m ''self'' = Inr \<lparr>p_root = ''/'', p_parts = [''work'', ''blk'']\<rparr>)"
proof -
  let ?rt = "\<lparr>p_root = ''/'', p_parts = [''work'', ''blk'']\<rparr>"
  let ?md1 = "[(''name'', YStr ''blk''), (''files'', YDict [(''none'', YList [])])]"
  let ?md2 = "[(''name'', YStr ''blk''), (''folder_structure'', YStr ''src_dsn''),
               (''files'', YDict [(''dsn'', YList [])])]"
  obtain m1 where e1: "Manifest_init ?md1 ?rt = Inr m1"
    by (simp add: init_defs)
  obtain m2 where e2: "Manifest_init ?md2 ?rt = Inr m2"
    by (simp add: init_defs)
  have "get_source_dir m1 ''none'' = Inr ?rt"
    using source_dir_of_kind [OF e1] by simp
  moreover have "get_source_dir m2 ''dsn'' = Inr \<lparr>p_root = ''/'', p_parts = [''work'', ''blk'', ''src'', ''dsn'']\<rparr> \<and>
        get_source_dir m2 ''tb'' = Inr \<lparr>p_root = ''/'', p_parts = [''work'', ''blk'', ''src'', ''tb'']\<rparr> \<and>
        get_source_dir m2 ''self'' = Inr ?rt"
    using source_dir_of_kind [OF e2] by simp
  ultimately show ?thesis using e1 e2 by blast
qed

section \<open>The preferred simulator\<close>

text \<open>
  Claim C6. When the supported simulators are a list, \<^verbatim>\<open>get_preferred_simulator\<close> returns
  the first of ghdl, qsim, msim, msim_free, xsim that is an element of the list, and
  \<^verbatim>\<open>None\<close>, without an error, when none of them is.
\<close>

theorem preferred_simulator_first:
  assumes "supported_simulators m = YList xs"
  shows "get_preferred_simulator m =
           Inr (find (\<lambda>s. YStr s \<in> set xs) [''ghdl'', ''qsim'', ''msim'', ''msim_free'', ''xsim'']) \<and>
         (get_preferred_simulator m = Inr None \<longleftrightarrow>
            (\<forall>s\<in>set [''ghdl'', ''qsim'', ''msim'', ''msim_free'', ''xsim'']. YStr s \<notin> set xs))"
proof -
  have f: "get_preferred_simulator m =
      Inr (find (\<lambda>s. YStr s \<in> set xs) [''ghdl'', ''qsim'', ''msim'', ''msim_free'', ''xsim''])"
    using assms
    by (simp only: get_preferred_simulator_def preferred_loop_list preference_order_def)
  have "find (\<lambda>s. YStr s \<in> set xs) [''ghdl'', ''qsim'', ''msim'', ''msim_free'', ''xsim''] = None \<longleftrightarrow>
      (\<forall>s\<in>set [''ghdl'', ''qsim'', ''msim'', ''msim_free'', ''xsim'']. YStr s \<notin> set xs)"
    by (simp only: find_None_iff) blast
  with f show ?thesis by simp
qed

text \<open>
  The list \<^verbatim>\<open>[xsim, msim]\<close> gives msim, the list \<^verbatim>\<open>[xsim]\<close> gives xsim and the empty list
  gives no value.
\<close>

theorem preferred_simulator_first_witness:
  "get_preferred_simulator
     \<lparr>root_dir = \<lparr>p_root = ''/'', p_parts = [''work'']\<rparr>, name = YStr ''blk'',
      folder_structure = None, file_lists = [], blocks = YNull, constraints = YNull,
      ips = YNull, supported_simulators = YList [YStr ''xsim'', YStr ''msim''],
      max_threads = YInt 5\<rparr> = Inr (Some ''msim'') \<and>
   get_preferred_simulator
     \<lparr>root_dir = \<lparr>p_root = ''/'', p_parts = [''work'']\<rparr>, name = YStr ''blk'',
      folder_structure = None, file_lists = [], blocks = YNull, constraints = YNull,
      ips = YNull, supported_simulators = YList [YStr ''xsim''],
      max_threads = YInt 5\<rparr> = Inr (Some ''xsim'') \<and>
   get_preferred_simulator
     \<lparr>root_dir = \<lparr>p_root = ''/'', p_parts = [''work'']\<rparr>, name = YStr ''blk'',
      folder_structure = None, file_lists = [], blocks = YNull, constraints = YNull,
      ips = YNull, supported_simulators = YList [],
      max_threads = YInt 5\<rparr> = Inr None"
  using
    preferred_simulator_first [of "\<lparr>root_dir = \<lparr>p_root = ''/'', p_parts = [''work'']\<rparr>, name = YStr ''blk'',
      folder_structure = None, file_lists = [], blocks = YNull, constraints = YNull,
      ips = YNull, supported_simulators = YList [YStr ''xsim'', YStr ''msim''],
      max_threads = YInt 5\<rparr>" "[YStr ''xsim'', YStr ''msim'']"]
    preferred_simulator_first [of "\<lparr>root_dir = \<lparr>p_root = ''/'', p_parts = [''work'']\<rparr>, name = YStr ''blk'',
      folder_structure = None, file_lists = [], blocks = YNull, constraints = YNull,
      ips = YNull, supported_simulators = YList [YStr ''xsim''],
      max_threads = YInt 5\<rparr>" "[YStr ''xsim'']"]
    preferred_simulator_first [of "\<lparr>root_dir = \<lparr>p_root = ''/'', p_parts = [''work'']\<rparr>, name = YStr ''blk'',
      folder_structure = None, file_lists = [], blocks = YNull, constraints = YNull,
      ips = YNull, supported_simulators = YList [],
      max_threads = YInt 5\<rparr>" "[]"]
  by simp

section \<open>Kinds outside the closed set\<close>

text \<open>
  Claim C10. The constructor does not validate the kinds: for a manifest with a name, a
  mapping under \<^verbatim>\<open>files\<close> with any strings as keys, a known or absent folder structure and
  a \<^verbatim>\<open>standards\<close> that is absent, null or a mapping, construction succeeds with one file
  list per key, in order, each kind other than \<^verbatim>\<open>tb\<close> with the standard of the precedence
  rules; \<^verbatim>\<open>get_lib_name\<close> on a file list whose kind is none of dsn, tb, self, none raises
  \<^verbatim>\<open>KeyError\<close> with that kind.
\<close>

theorem kinds_not_validated:
  assumes "map_of md ''name'' = Some nm" "map_of md ''files'' = Some (YDict fs)"
    "known_folder_structure md" "standards_is_mapping md"
  shows "\<exists>m. Manifest_init md rootd = Inr m \<and> map kind (file_lists m) = map fst fs \<and>
           (\<forall>fl\<in>set (file_lists m).
              kind fl \<noteq> ''tb'' \<longrightarrow> standard fl = declared_standard md (kind fl)) \<and>
           (\<forall>fl\<in>set (file_lists m).
              kind fl \<notin> {''dsn'', ''tb'', ''self'', ''none''} \<longrightarrow>
              get_lib_name fl blk_name = Inl (KeyError (YStr (kind fl))))"
proof -
  from Manifest_init_total [OF assms] obtain m where m: "Manifest_init md rootd = Inr m"
    by blast
  from Manifest_init_file_lists [OF m] assms(2) have
    k: "map kind (file_lists m) = map fst fs" and
    c: "\<forall>fl\<in>set (file_lists m).
          choose_standard (get_or md ''standard'' (YStr ''VHDL''))
            (get_or md ''standards'' YNull) (kind fl) = Inr (standard fl)"
    by auto
  have s: "\<forall>fl\<in>set (file_lists m).
             kind fl \<noteq> ''tb'' \<longrightarrow> standard fl = declared_standard md (kind fl)"
    using c choose_standard_declared by blast
  have g: "\<forall>fl\<in>set (file_lists m).
             kind fl \<notin> {''dsn'', ''tb'', ''self'', ''none''} \<longrightarrow>
             get_lib_name fl blk_name = Inl (KeyError (YStr (kind fl)))"
    by (simp add: get_lib_name_def kinds_def)
  from m k s g show ?thesis by blast
qed

text \<open>The kind \<^verbatim>\<open>rtl\<close> is accepted by the constructor and rejected by \<^verbatim>\<open>get_lib_name\<close>.\<close>

theorem kinds_not_validated_witness:
  "\<exists>m. Manifest_init
          [(''name'', YStr ''blk''), (''files'', YDict [(''rtl'', YList [YStr ''a.vhd''])])]
          \<lparr>p_root = ''/'', p_parts = [''work'', ''blk'']\<rparr> = Inr m \<and>
        file_lists m = [\<lparr>kind = ''rtl'', files = YList [YStr ''a.vhd''], standard = YStr ''VHDL''\<rparr>] \<and>
        get_lib_name (hd (file_lists m)) ''blk'' = Inl (KeyError (YStr ''rtl''))"
proof -
  let ?md = "[(''name'', YStr ''blk''), (''files'', YDict [(''rtl'', YList [YStr ''a.vhd''])])]"
  let ?rt = "\<lparr>p_root = ''/'', p_parts = [''work'', ''blk'']\<rparr>"
  have h: "map_of ?md ''name'' = Some (YStr ''blk'')"
    "map_of ?md ''files'' = Some (YDict [(''rtl'', YList [YStr ''a.vhd''])])"
    "known_folder_structure ?md" "standards_is_mapping ?md"
    by (simp_all add: known_folder_structure_def standards_is_mapping_def)
  from kinds_not_validated [OF h, of ?rt "''blk''"] obtain m where
    e: "Manifest_init ?md ?rt = Inr m" and
    k: "map kind (file_lists m) = [''rtl'']" and
    s: "\<forall>fl\<in>set (file_lists m).
              kind fl \<noteq> ''tb'' \<longrightarrow> standard fl = declared_standard ?md (kind fl)" and
    g: "\<forall>fl\<in>set (file_lists m).
              kind fl \<notin> {''dsn'', ''tb'', ''self'', ''none''} \<longrightarrow>
              get_lib_name fl ''blk'' = Inl (KeyError (YStr (kind fl)))"
    by auto
  from e have l: "file_lists m = [\<lparr>kind = ''rtl'', files = YList [YStr ''a.vhd''], standard = YStr ''VHDL''\<rparr>]"
    by (auto simp: init_defs)
  from g l have "get_lib_name (hd (file_lists m)) ''blk'' = Inl (KeyError (YStr ''rtl''))"
    by simp
  with e l show ?thesis by blast
qed

section \<open>All files of a manifest\<close>




section \<open>Unknown folder structures\<close>

text \<open>
  Claim C7 says that constructing a \<^verbatim>\<open>FolderStructure\<close> from an unknown convention name is
  not an error and that the failure comes later, as an explicit error, when a directory
  is resolved. The constructor computes the name \<^verbatim>\<open>None\<close> for an unknown convention and
  then reads the table by subscript, which raises \<^verbatim>\<open>KeyError\<close> with the name: construction
  fails.
\<close>

theorem unknown_folder_structure_raises:
  "FolderStructure_init (YStr ''bogus'') = Inl (KeyError (YStr ''bogus''))"
  by (simp add: init_defs)

text \<open>
  Claim C7, amended. For a convention outside \<^verbatim>\<open>src_dsn\<close> and \<^verbatim>\<open>hdl_sim\<close>, constructing the
  structure and then resolving the source directory of any kind never yields a
  directory: the sequence fails with \<^verbatim>\<open>KeyError\<close> carrying the supplied value (with
  \<^verbatim>\<open>TypeError\<close> when the value cannot be hashed), for a structure built directly and for
  one built by the manifest's constructor. There is no fallback and no error type of its
  own.
\<close>

theorem unknown_folder_structure_never_resolves:
  assumes "v \<noteq> YStr ''src_dsn''" "v \<noteq> YStr ''hdl_sim''"
  shows "(case FolderStructure_init v of
            Inl e \<Rightarrow> Inl e
          | Inr s \<Rightarrow> get_source_dir (m\<lparr>folder_structure := Some s\<rparr>) knd) =
           Inl (if hashable v then KeyError v else TypeError) \<and>
         (map_of md ''name'' = Some nm \<and> map_of md ''folder_structure'' = Some v \<longrightarrow>
            (case Manifest_init md rootd of
               Inl e \<Rightarrow> Inl e
             | Inr m' \<Rightarrow> get_source_dir m' knd) =
              Inl (if hashable v then KeyError v else TypeError))"
  using FolderStructure_init_unknown [OF assms]
  by (simp add: Manifest_init_def)

theorem unknown_folder_structure_never_resolves_witness:
  "(case Manifest_init
           [(''name'', YStr ''blk''), (''folder_structure'', YStr ''bogus''),
            (''files'', YDict [(''dsn'', YList [YStr ''a.vhd''])])]
           \<lparr>p_root = ''/'', p_parts = [''work'', ''blk'']\<rparr> of
      Inl e \<Rightarrow> Inl e
    | Inr m' \<Rightarrow> get_source_dir m' ''dsn'') = Inl (KeyError (YStr ''bogus''))"
  using unknown_folder_structure_never_resolves
    [where v = "YStr ''bogus''" and nm = "YStr ''blk''" and knd = "''dsn''"
       and rootd = "\<lparr>p_root = ''/'', p_parts = [''work'', ''blk'']\<rparr>"
       and md = "[(''name'', YStr ''blk''), (''folder_structure'', YStr ''bogus''),
            (''files'', YDict [(''dsn'', YList [YStr ''a.vhd''])])]"]
  by simp

section \<open>Missing required keys\<close>

text \<open>
  Claim C8 says that a document without \<^verbatim>\<open>files\<close> fails with an error that identifies the
  missing field. A document with a name, no \<^verbatim>\<open>files\<close> and an unknown folder structure
  fails earlier, with the \<^verbatim>\<open>KeyError\<close> of the folder structure's lookup, which names the
  convention and not the field.
\<close>

theorem missing_files_other_error:
  "map_of [(''name'', YStr ''blk''), (''folder_structure'', YStr ''bogus'')] ''name'' =
     Some (YStr ''blk'') \<and>
   map_of [(''name'', YStr ''blk''), (''folder_structure'', YStr ''bogus'')] ''files'' = None \<and>
   Manifest_init [(''name'', YStr ''blk''), (''folder_structure'', YStr ''bogus'')]
     \<lparr>p_root = ''/'', p_parts = [''work'', ''blk'']\<rparr> = Inl (KeyError (YStr ''bogus''))"
  by (simp add: init_defs)

text \<open>
  Claim C8, amended. A mapping without \<^verbatim>\<open>name\<close> fails with \<^verbatim>\<open>KeyError\<close> carrying \<^verbatim>\<open>name\<close>; a
  mapping with \<^verbatim>\<open>name\<close>, without \<^verbatim>\<open>files\<close> and with an absent or known folder structure fails
  with \<^verbatim>\<open>KeyError\<close> carrying \<^verbatim>\<open>files\<close>. With both keys present, construction does not fail
  for their absence: a \<^verbatim>\<open>KeyError\<close>, if one is raised, is that of the folder structure's
  lookup and carries the value of \<^verbatim>\<open>folder_structure\<close>.
\<close>

theorem missing_key_raises_KeyError:
  "(map_of md ''name'' = None \<longrightarrow> Manifest_init md rootd = Inl (KeyError (YStr ''name''))) \<and>
   (map_of md ''name'' = Some nm \<and> map_of md ''files'' = None \<and> known_folder_structure md \<longrightarrow>
      Manifest_init md rootd = Inl (KeyError (YStr ''files''))) \<and>
   (map_of md ''name'' = Some nm \<and> map_of md ''files'' = Some fv \<and>
    Manifest_init md rootd = Inl (KeyError k) \<longrightarrow>
      map_of md ''folder_structure'' = Some k \<and> FolderStructure_init k = Inl (KeyError k))"
proof -
  have c1: "map_of md ''name'' = None \<longrightarrow>
      Manifest_init md rootd = Inl (KeyError (YStr ''name''))"
    by (simp add: Manifest_init_def)
  have c2: "map_of md ''name'' = Some nm \<and> map_of md ''files'' = None \<and>
      known_folder_structure md \<longrightarrow> Manifest_init md rootd = Inl (KeyError (YStr ''files''))"
  proof
    assume a: "map_of md ''name'' = Some nm \<and> map_of md ''files'' = None \<and>
      known_folder_structure md"
    from known_folder_structure_Inr obtain fstruct where
      "(case map_of md ''folder_structure'' of
             None \<Rightarrow> Inr None
           | Some v \<Rightarrow>
               (case FolderStructure_init v of
                  Inl e \<Rightarrow> Inl e
                | Inr s \<Rightarrow> Inr (Some s))) = Inr fstruct"
      using a by blast
    with a show "Manifest_init md rootd = Inl (KeyError (YStr ''files''))"
      by (simp add: Manifest_init_def Let_def)
  qed
  have c3: "map_of md ''name'' = Some nm \<and> map_of md ''files'' = Some fv \<and>
      Manifest_init md rootd = Inl (KeyError k) \<longrightarrow>
      map_of md ''folder_structure'' = Some k \<and> FolderStructure_init k = Inl (KeyError k)"
  proof
    assume a: "map_of md ''name'' = Some nm \<and> map_of md ''files'' = Some fv \<and>
      Manifest_init md rootd = Inl (KeyError k)"
    with Manifest_init_Inl [of md nm fv rootd "KeyError k"] obtain v where
      v: "map_of md ''folder_structure'' = Some v" "FolderStructure_init v = Inl (KeyError k)"
      by auto
    from FolderStructure_init_KeyError [OF v(2)] have "k = v" .
    with v show "map_of md ''folder_structure'' = Some k \<and>
        FolderStructure_init k = Inl (KeyError k)"
      by simp
  qed
  from c1 c2 c3 show ?thesis by (intro conjI)
qed

text \<open>
  The three cases: no \<^verbatim>\<open>name\<close>; a name and no \<^verbatim>\<open>files\<close>; both keys and the folder structure
  \<^verbatim>\<open>files\<close>, whose lookup raises the only \<^verbatim>\<open>KeyError\<close> such a document can get.
\<close>

theorem missing_key_raises_KeyError_witness:
  "Manifest_init [(''files'', YDict [])] \<lparr>p_root = ''/'', p_parts = [''work'']\<rparr> =
     Inl (KeyError (YStr ''name'')) \<and>
   Manifest_init [(''name'', YStr ''blk'')] \<lparr>p_root = ''/'', p_parts = [''work'']\<rparr> =
     Inl (KeyError (YStr ''files'')) \<and>
   Manifest_init [(''name'', YStr ''blk''), (''folder_structure'', YStr ''files''), (''files'', YDict [])]
     \<lparr>p_root = ''/'', p_parts = [''work'']\<rparr> = Inl (KeyError (YStr ''files'')) \<and>
   FolderStructure_init (YStr ''files'') = Inl (KeyError (YStr ''files''))"
proof -
  let ?rt = "\<lparr>p_root = ''/'', p_parts = [''work'']\<rparr>"
  let ?md3 = "[(''name'', YStr ''blk''), (''folder_structure'', YStr ''files''), (''files'', YDict [])]"
  have e3: "Manifest_init ?md3 ?rt = Inl (KeyError (YStr ''files''))"
    by (simp add: init_defs)
  have "FolderStructure_init (YStr ''files'') = Inl (KeyError (YStr ''files''))"
    using missing_key_raises_KeyError [where md = ?md3 and rootd = ?rt and nm = "YStr ''blk''"
      and fv = "YDict []" and k = "YStr ''files''"] e3
    by simp
  moreover have "Manifest_init [(''files'', YDict [])] ?rt = Inl (KeyError (YStr ''name''))"
    using missing_key_raises_KeyError [where md = "[(''files'', YDict [])]" and rootd = ?rt]
    by simp
  moreover have "Manifest_init [(''name'', YStr ''blk'')] ?rt = Inl (KeyError (YStr ''files''))"
    using missing_key_raises_KeyError [where md = "[(''name'', YStr ''blk'')]" and rootd = ?rt
      and nm = "YStr ''blk''"]
    by (simp add: known_folder_structure_def)
  ultimately show ?thesis using e3 by simp
qed

section \<open>Null file lists\<close>

text \<open>
  Claim C9 says that a null value under \<^verbatim>\<open>files\<close> means no files of that kind. The
  constructor accepts it and stores \<^verbatim>\<open>None\<close> as the files of the kind, but
  \<^verbatim>\<open>get_all_files\<close> iterates the files of every file list and raises \<^verbatim>\<open>TypeError\<close> on
  \<^verbatim>\<open>None\<close>, so the paths of the other kinds are not returned either.
\<close>

theorem null_files_get_all_files_raises:
  "\<exists>m. Manifest_init
          [(''name'', YStr ''blk''),
           (''files'', YDict [(''dsn'', YNull), (''tb'', YList [YStr ''t.vhd''])])]
          \<lparr>p_root = ''/'', p_parts = [''work'', ''blk'']\<rparr> = Inr m \<and>
        file_lists m =
          [\<lparr>kind = ''dsn'', files = YNull, standard = YStr ''VHDL''\<rparr>,
           \<lparr>kind = ''tb'', files = YList [YStr ''t.vhd''], standard = YStr ''VHDL 2008''\<rparr>] \<and>
        get_all_files m = Inl TypeError"
  by (simp add: init_defs get_all_files_def get_source_dir_def)

end
